theory Spec2Isabelle
  imports Main "HOL-Library.Sublist" "HOL-Library.Multiset"
begin

section \<open>Documents, exceptions and the process environment\<close>

text \<open>
  A shallow embedding of \<^verbatim>\<open>bfg.py\<close>, the front end that translates a YAML document
  into argument lists for the database manager and for the attack parser.

  The values a loaded document holds are Python's \<^verbatim>\<open>None\<close>, booleans, integers,
  strings, lists and dictionaries. A dictionary keeps its insertion order, so it is an
  association list; its keys are strings. Strings are lists of 8-bit characters, that is
  Python strings whose code points are below 256. Floats and dates are left out.
\<close>

datatype yval =
    YNone
  | YBool bool
  | YInt int
  | YStr string
  | YList "yval list"
  | YDict "(string \<times> yval) list"

text \<open>
  Python exceptions are values. \<^verbatim>\<open>exit()\<close> raises \<^verbatim>\<open>SystemExit\<close> with the code
  \<^verbatim>\<open>None\<close>; \<open>Failure\<close> stands for an exception raised by a collaborator that lives
  outside \<^verbatim>\<open>bfg.py\<close> (the store, the attack engine, a management handler).
\<close>

datatype error =
    FileNotFoundError string
  | ValueError string
  | TypeError
  | AttributeError
  | EOFError
  | SystemExit "int option"
  | KeyboardInterrupt
  | Failure string

text \<open>\<^verbatim>\<open>isinstance(e, Exception)\<close>: everything but the two direct subclasses of
  \<^verbatim>\<open>BaseException\<close>.\<close>

fun is_Exception :: "error \<Rightarrow> bool" where
  "is_Exception (SystemExit c) = False"
| "is_Exception KeyboardInterrupt = False"
| "is_Exception e = True"

datatype node = File | Dir

type_synonym filesystem = "string \<Rightarrow> node option"

text \<open>\<^verbatim>\<open>Path.exists()\<close> and \<^verbatim>\<open>Path.is_file()\<close>.\<close>

definition path_exists :: "filesystem \<Rightarrow> string \<Rightarrow> bool" where
  "path_exists fs p = (fs p \<noteq> None)"

definition is_file :: "filesystem \<Rightarrow> string \<Rightarrow> bool" where
  "is_file fs p = (fs p = Some File)"

text \<open>
  What the process shows to the operator: printed lines, prompts of \<^verbatim>\<open>input\<close>, log
  records, the pieces of an exception that the launch handler prints (\<^verbatim>\<open>print(e)\<close>,
  the attribute names and the line number of its traceback, \<^verbatim>\<open>traceback.print_tb\<close>),
  the parser's help and the print of a parsed namespace.
\<close>

datatype display =
    Out string
  | Prompt string
  | Log string
  | ExcMessage error
  | TracebackDir
  | TracebackLineno
  | TracebackFrames
  | Help
  | NamespaceRepr

text \<open>
  The state of the process that the script reads and writes: the file system, the lines
  still to be read from standard input, and everything shown so far, oldest first. An
  exception leaves the state as it was when it was raised, so a computation returns its
  result or exception together with the state.
\<close>

record world =
  fs :: filesystem
  stdin :: "string list"
  shown :: "display list"

definition emit :: "display \<Rightarrow> world \<Rightarrow> world" where
  "emit x w = w\<lparr>shown := shown w @ [x]\<rparr>"

text \<open>\<^verbatim>\<open>input(m)\<close> shows the message and reads one line; at end of input it raises
  \<^verbatim>\<open>EOFError\<close>.\<close>

definition input :: "string \<Rightarrow> world \<Rightarrow> (error + string) \<times> world" where
  "input m w =
     (case stdin w of
        [] \<Rightarrow> (Inl EOFError, emit (Prompt m) w)
      | l # ls \<Rightarrow> (Inr l, emit (Prompt m) (w\<lparr>stdin := ls\<rparr>)))"

section \<open>Python's string conversions\<close>

definition digit_char :: "nat \<Rightarrow> char" where
  "digit_char d = ''0123456789abcdef'' ! d"

fun str_nat :: "nat \<Rightarrow> string" where
  "str_nat n =
     (if n < 10 then [digit_char n] else str_nat (n div 10) @ [digit_char (n mod 10)])"

declare str_nat.simps [simp del]

text \<open>\<^verbatim>\<open>str\<close> of an integer: decimal digits, with a minus sign when negative.\<close>

definition str_int :: "int \<Rightarrow> string" where
  "str_int i = (if i < 0 then CHR ''-'' # str_nat (nat (- i)) else str_nat (nat i))"

text \<open>
  \<^verbatim>\<open>repr\<close> of a string. The quote is the double quote when the string holds a single
  quote and no double quote, else the single quote. The quote and the backslash are
  escaped with a backslash, tab, newline and carriage return by their letters, the other
  control characters and the unprintable characters of Latin-1 (0x7f to 0xa0, 0xad) as
  \<^verbatim>\<open>\xhh\<close>.
\<close>

definition squote :: char where "squote = CHR 0x27"
definition dquote :: char where "dquote = CHR 0x22"
definition backslash :: char where "backslash = CHR 0x5C"

definition hex_escape :: "char \<Rightarrow> string" where
  "hex_escape c =
     [backslash, CHR ''x'', digit_char (of_char c div 16), digit_char (of_char c mod 16)]"

definition repr_char :: "char \<Rightarrow> char \<Rightarrow> string" where
  "repr_char quote c =
     (if c = quote \<or> c = backslash then [backslash, c]
      else if c = CHR 0x09 then [backslash, CHR ''t'']
      else if c = CHR 0x0A then [backslash, CHR ''n'']
      else if c = CHR 0x0D then [backslash, CHR ''r'']
      else if (of_char c :: nat) < 32 \<or> (of_char c :: nat) = 127 then hex_escape c
      else if (of_char c :: nat) < 127 then [c]
      else if (of_char c :: nat) \<le> 160 \<or> (of_char c :: nat) = 173 then hex_escape c
      else [c])"

definition repr_str :: "string \<Rightarrow> string" where
  "repr_str s =
     (let quote = (if squote \<in> set s \<and> dquote \<notin> set s then dquote else squote)
      in [quote] @ concat (map (repr_char quote) s) @ [quote])"

text \<open>\<^verbatim>\<open>sep.join(xs)\<close>.\<close>

fun join :: "string \<Rightarrow> string list \<Rightarrow> string" where
  "join sep [] = []"
| "join sep [x] = x"
| "join sep (x # y # ys) = x @ sep @ join sep (y # ys)"

text \<open>\<^verbatim>\<open>repr(v)\<close>: a list and a dictionary show the \<^verbatim>\<open>repr\<close> of their elements.\<close>

fun py_repr :: "yval \<Rightarrow> string" where
  "py_repr YNone = ''None''"
| "py_repr (YBool b) = (if b then ''True'' else ''False'')"
| "py_repr (YInt i) = str_int i"
| "py_repr (YStr s) = repr_str s"
| "py_repr (YList xs) = ''['' @ join '', '' (map py_repr xs) @ '']''"
| "py_repr (YDict kvs) =
     ''{'' @ join '', '' (map (\<lambda>(k, v). repr_str k @ '': '' @ py_repr v) kvs) @ ''}''"

text \<open>\<^verbatim>\<open>str(v)\<close>, which is also what \<^verbatim>\<open>'{value}'.format(value=v)\<close> and an f-string
  insert: a string as it is, anything else by its \<^verbatim>\<open>repr\<close>.\<close>

definition py_str :: "yval \<Rightarrow> string" where
  "py_str v = (case v of YStr s \<Rightarrow> s | _ \<Rightarrow> py_repr v)"

text \<open>\<^verbatim>\<open>s.lower()\<close> on Latin-1: the letters A to Z, and 0xc0 to 0xde but for the
  multiplication sign, move up by 32.\<close>

definition lower_char :: "char \<Rightarrow> char" where
  "lower_char c =
     (if (65 \<le> (of_char c :: nat) \<and> (of_char c :: nat) \<le> 90)
         \<or> (192 \<le> (of_char c :: nat) \<and> (of_char c :: nat) \<le> 222 \<and> (of_char c :: nat) \<noteq> 215)
      then char_of (of_char c + (32 :: nat)) else c)"

definition lower :: "string \<Rightarrow> string" where
  "lower s = map lower_char s"

text \<open>\<^verbatim>\<open>s.replace("_", "-")\<close>.\<close>

definition replace_underscores :: "string \<Rightarrow> string" where
  "replace_underscores s = map (\<lambda>c. if c = CHR ''_'' then CHR ''-'' else c) s"

text \<open>The truth value of \<^verbatim>\<open>if v:\<close>.\<close>

fun truthy :: "yval \<Rightarrow> bool" where
  "truthy YNone = False"
| "truthy (YBool b) = b"
| "truthy (YInt i) = (i \<noteq> 0)"
| "truthy (YStr s) = (s \<noteq> [])"
| "truthy (YList xs) = (xs \<noteq> [])"
| "truthy (YDict kvs) = (kvs \<noteq> [])"

text \<open>
  \<^verbatim>\<open>x in v\<close> for a string \<open>x\<close>: a key of a dictionary, an element of a list, a
  substring of a string; the other values are not iterable.
\<close>

fun py_in :: "string \<Rightarrow> yval \<Rightarrow> error + bool" where
  "py_in x (YDict kvs) = Inr (x \<in> fst ` set kvs)"
| "py_in x (YList xs) = Inr (YStr x \<in> set xs)"
| "py_in x (YStr s) = Inr (sublist x s)"
| "py_in x v = Inl TypeError"

text \<open>\<^verbatim>\<open>v[k]\<close> for a string \<open>k\<close> that \<^verbatim>\<open>k in v\<close> has found: only a dictionary can be
  indexed by a string.\<close>

fun py_index :: "yval \<Rightarrow> string \<Rightarrow> error + yval" where
  "py_index (YDict kvs) k =
     (case map_of kvs k of Some x \<Rightarrow> Inr x | None \<Rightarrow> Inl (Failure ''KeyError''))"
| "py_index v k = Inl TypeError"

text \<open>\<^verbatim>\<open>d.get(k, {})\<close>.\<close>

definition get_or_empty :: "(string \<times> yval) list \<Rightarrow> string \<Rightarrow> yval" where
  "get_or_empty d k = (case map_of d k of Some v \<Rightarrow> v | None \<Rightarrow> YDict [])"

section \<open>The loader\<close>

text \<open>
  \<^verbatim>\<open>findFile(path)\<close>; the message of the exception is the global \<^verbatim>\<open>args.yaml_file\<close>,
  here the parameter \<open>yaml_file\<close>.
\<close>

definition findFile :: "filesystem \<Rightarrow> string \<Rightarrow> string \<Rightarrow> error + string" where
  "findFile files yaml_file path =
     (if \<not> path_exists files path \<and> is_file files path
      then Inl (FileNotFoundError yaml_file)
      else Inr path)"

text \<open>
  \<^verbatim>\<open>parseYml(f, key_checks)\<close>, from the value \<^verbatim>\<open>loadYml\<close> returned: \<^verbatim>\<open>values.keys()\<close>
  needs a dictionary, and every name of \<^verbatim>\<open>key_checks\<close> must be one of its keys.
\<close>

definition missing_key_message :: "string \<Rightarrow> string" where
  "missing_key_message v =
     [dquote] @ v @ [dquote] @ '' value must be set in the base of the YAML file.''"

fun check_keys :: "string set \<Rightarrow> string list \<Rightarrow> error option" where
  "check_keys keys [] = None"
| "check_keys keys (v # vs) =
     (if v \<notin> keys then Some (ValueError (missing_key_message v)) else check_keys keys vs)"

fun parseYml :: "yval \<Rightarrow> string list \<Rightarrow> error + (string \<times> yval) list" where
  "parseYml (YDict kvs) key_checks =
     (case check_keys (fst ` set kvs) key_checks of
        Some e \<Rightarrow> Inl e
      | None \<Rightarrow> Inr kvs)"
| "parseYml v key_checks = Inl AttributeError"

section \<open>Confirmation prompts\<close>

text \<open>
  \<^verbatim>\<open>get_user_input(m)\<close>: the variable \<^verbatim>\<open>uinput\<close> starts as \<^verbatim>\<open>None\<close> and the loop
  reads a line while it is neither \<^verbatim>\<open>'y'\<close> nor \<^verbatim>\<open>'n'\<close>. The loop of
  \<^verbatim>\<open>run_db_command\<close> on \<^verbatim>\<open>cont\<close> is the same loop, so both use \<open>yn_loop\<close>.
\<close>

function yn_loop :: "string \<Rightarrow> string option \<Rightarrow> world \<Rightarrow> (error + string option) \<times> world" where
  "yn_loop m uinput w =
     (if uinput \<noteq> Some ''y'' \<and> uinput \<noteq> Some ''n''
      then (case input m w of
              (Inl e, w') \<Rightarrow> (Inl e, w')
            | (Inr l, w') \<Rightarrow> yn_loop m (Some l) w')
      else (Inr uinput, w))"
  by pat_completeness auto
termination
  by (relation "measure (\<lambda>(m, u, w). length (stdin w))")
     (auto simp: input_def emit_def split: list.splits)

declare yn_loop.simps [simp del]

definition get_user_input :: "string \<Rightarrow> world \<Rightarrow> (error + string option) \<times> world" where
  "get_user_input m w = yn_loop m None w"

section \<open>Translating the management section\<close>

text \<open>
  The tokens of one flag's value (lines 268 to 273): a list gives the \<^verbatim>\<open>str\<close> of each
  element, a boolean its lowercased \<^verbatim>\<open>str\<close>, anything else its \<^verbatim>\<open>str\<close>.
\<close>

fun flag_values :: "yval \<Rightarrow> string list" where
  "flag_values (YList vs) = map py_str vs"
| "flag_values (YBool b) = [lower (py_str (YBool b))]"
| "flag_values v = [py_str v]"

text \<open>
  The loop over \<^verbatim>\<open>argset.items()\<close>, with the list \<^verbatim>\<open>_args\<close> as accumulator:
  \<^verbatim>\<open>_args += [f'--{flag}'] + values\<close>.
\<close>

fun argset_loop :: "string list \<Rightarrow> (string \<times> yval) list \<Rightarrow> string list" where
  "argset_loop acc [] = acc"
| "argset_loop acc ((flag, vals) # rest) =
     argset_loop (acc @ [''--'' @ flag] @ flag_values vals) rest"

definition not_a_dict_message :: string where
  "not_a_dict_message =
     ''All db-management subcommands should be configured with a dictionary of supporting arguments.''"

text \<open>
  The loop over \<^verbatim>\<open>db_args.items()\<close> (lines 255 to 277). The dispatcher is the parameter
  \<open>run\<close>; the script passes \<^verbatim>\<open>run_db_command\<close> with the management parser. An
  exception of the dispatcher ends the loop.
\<close>

fun db_management_loop ::
  "(string list \<Rightarrow> world \<Rightarrow> (error + unit) \<times> world) \<Rightarrow> string \<Rightarrow>
   (string \<times> yval) list \<Rightarrow> world \<Rightarrow> (error + unit) \<times> world" where
  "db_management_loop run db_arg [] w = (Inr (), w)"
| "db_management_loop run db_arg ((cmd, argset) # rest) w =
     (case argset of
        YDict flags \<Rightarrow>
          (case run (argset_loop [cmd, db_arg] flags) w of
             (Inl e, w') \<Rightarrow> (Inl e, w')
           | (Inr u, w') \<Rightarrow> db_management_loop run db_arg rest w')
      | _ \<Rightarrow> (Inl (ValueError not_a_dict_message), w))"

text \<open>\<^verbatim>\<open>if db_args:\<close> and \<^verbatim>\<open>db_args.items()\<close>: a value that is true and is not a
  dictionary has no \<^verbatim>\<open>items\<close>.\<close>

definition do_db_management ::
  "(string list \<Rightarrow> world \<Rightarrow> (error + unit) \<times> world) \<Rightarrow> string \<Rightarrow>
   yval \<Rightarrow> world \<Rightarrow> (error + unit) \<times> world" where
  "do_db_management run db_arg db_args w =
     (if truthy db_args
      then (case db_args of
              YDict cmds \<Rightarrow> db_management_loop run db_arg cmds w
            | _ \<Rightarrow> (Inl AttributeError, w))
      else (Inr (), w))"

section \<open>Translating the attack section\<close>

text \<open>\<^verbatim>\<open>FT.format(flag=flag, value=value)\<close> with \<^verbatim>\<open>FT = '--{flag}={value}'\<close>.\<close>

definition FT :: "string \<Rightarrow> yval \<Rightarrow> string" where
  "FT flag v = ''--'' @ flag @ ''='' @ py_str v"

text \<open>The loop over \<^verbatim>\<open>v['args'].items()\<close> (lines 327 to 332).\<close>

fun module_args_loop :: "yval list \<Rightarrow> (string \<times> yval) list \<Rightarrow> yval list" where
  "module_args_loop acc [] = acc"
| "module_args_loop acc ((ik, iv) # rest) =
     module_args_loop (acc @ [YStr (FT (replace_underscores ik) iv)]) rest"

text \<open>
  The branch of the module key (lines 315 to 332): both membership tests, then the name
  is appended as it is, then the flags of \<^verbatim>\<open>v['args']\<close>, which must have \<^verbatim>\<open>items\<close>.
\<close>

definition capture_module :: "yval list \<Rightarrow> yval \<Rightarrow> error + yval list" where
  "capture_module acc v =
     (case py_in ''name'' v of
        Inl e \<Rightarrow> Inl e
      | Inr has_name \<Rightarrow>
          if \<not> has_name
          then Inl (ValueError ([dquote] @ ''name'' @ [dquote] @ '' field must be defined under ''
                                @ [dquote] @ ''module'' @ [dquote] @ ''.''))
          else (case py_in ''args'' v of
                  Inl e \<Rightarrow> Inl e
                | Inr has_args \<Rightarrow>
                    if \<not> has_args
                    then Inl (ValueError ([dquote] @ ''args'' @ [dquote] @ '' field must be defined under ''
                                          @ [dquote] @ ''module'' @ [dquote] @ ''.''))
                    else (case py_index v ''name'' of
                            Inl e \<Rightarrow> Inl e
                          | Inr name \<Rightarrow>
                              (case py_index v ''args'' of
                                 Inl e \<Rightarrow> Inl e
                               | Inr (YDict margs) \<Rightarrow> Inr (module_args_loop (acc @ [name]) margs)
                               | Inr other \<Rightarrow> Inl AttributeError))))"

text \<open>
  The loop over \<^verbatim>\<open>bf_args.items()\<close> (lines 294 to 332), with \<^verbatim>\<open>brute_cli_args\<close> as
  accumulator. The list holds the strings built by the template and the module's name,
  whatever value that is.
\<close>

fun brute_force_loop :: "yval list \<Rightarrow> (string \<times> yval) list \<Rightarrow> error + yval list" where
  "brute_force_loop acc [] = Inr acc"
| "brute_force_loop acc ((k, v) # rest) =
     (if k \<noteq> ''module''
      then brute_force_loop
             (acc @ [YStr (FT (replace_underscores k)
                             (case v of YBool b \<Rightarrow> YStr (lower (py_str v)) | _ \<Rightarrow> v))]) rest
      else (case capture_module acc v of
              Inl e \<Rightarrow> Inl e
            | Inr acc' \<Rightarrow> brute_force_loop acc' rest))"

definition no_module_message :: string where
  "no_module_message = [dquote] @ ''module'' @ [dquote] @ '' field must be set in the YAML file.''"

text \<open>
  Lines 283 to 332: nothing is translated when \<^verbatim>\<open>bf_args\<close> is false (the result is
  \<open>None\<close>); else \<^verbatim>\<open>bf_args.keys()\<close> needs a dictionary, the module key must be there,
  and the loop starts from \<^verbatim>\<open>[db_arg]\<close>.
\<close>

definition brute_force_args :: "string \<Rightarrow> yval \<Rightarrow> error + yval list option" where
  "brute_force_args db_arg bf_args =
     (if truthy bf_args
      then (case bf_args of
              YDict items \<Rightarrow>
                if ''module'' \<notin> fst ` set items
                then Inl (ValueError no_module_message)
                else (case brute_force_loop [YStr db_arg] items of
                        Inl e \<Rightarrow> Inl e
                      | Inr toks \<Rightarrow> Inr (Some toks))
            | _ \<Rightarrow> Inl AttributeError)
      else Inr None)"

section \<open>The database command dispatcher\<close>

text \<open>
  A parsed \<^verbatim>\<open>argparse.Namespace\<close> maps attribute names to values; reading an attribute
  that is not there raises \<^verbatim>\<open>AttributeError\<close>. A handler, a module or any other object
  bound by a parser is a value that names it.
\<close>

type_synonym namespace = "string \<Rightarrow> yval option"

definition getattr :: "namespace \<Rightarrow> string \<Rightarrow> error + yval" where
  "getattr ns a = (case ns a of Some v \<Rightarrow> Inr v | None \<Rightarrow> Inl AttributeError)"

type_synonym parser = "string list \<Rightarrow> error + namespace"

text \<open>
  What \<^verbatim>\<open>run_db_command\<close> takes from outside the script: the command line of the
  process, the constructor of the store's \<^verbatim>\<open>Manager\<close> and the execution of the handler
  \<^verbatim>\<open>args.cmd(args, logger, manager)\<close>.
\<close>

record db_tools =
  argv :: "string list"
  Manager :: "string \<Rightarrow> world \<Rightarrow> error option \<times> world"
  run_cmd :: "yval \<Rightarrow> namespace \<Rightarrow> world \<Rightarrow> error option \<times> world"

definition database_prompt :: string where
  "database_prompt = [CHR 0x0A] @ ''Database not found. Continue and create it? (y/n) ''"

text \<open>Lines 131 to 148: the prompt for a store that does not exist yet.\<close>

definition handle_missing_database :: "string \<Rightarrow> world \<Rightarrow> (error + unit) \<times> world" where
  "handle_missing_database database w =
     (if \<not> path_exists (fs w) database
      then (case yn_loop database_prompt None w of
              (Inl e, w') \<Rightarrow> (Inl e, w')
            | (Inr cont, w') \<Rightarrow>
                if cont = Some ''n''
                then (Inl (SystemExit None), emit (Log ''Database not found. Exiting'') w')
                else (Inr (), emit (Log (''Creating database file: '' @ database))
                                (emit (Out []) w')))
      else (Inr (), w))"

text \<open>Lines 154 to 166: the manager is built, its failure logged and raised again, and
  the handler runs.\<close>

definition execute_subcommand ::
  "db_tools \<Rightarrow> yval \<Rightarrow> namespace \<Rightarrow> string \<Rightarrow> world \<Rightarrow> (error + unit) \<times> world" where
  "execute_subcommand tools cmd args database w =
     (case Manager tools database w of
        (Some e, w') \<Rightarrow>
          (Inl e, if is_Exception e
                  then emit (Log ''Failed to initialize the database manager'') w' else w')
      | (None, w') \<Rightarrow>
          (case run_cmd tools cmd args (emit (Log ''Executing command'') w') of
             (Some e, w'') \<Rightarrow> (Inl e, w'')
           | (None, w'') \<Rightarrow> (Inr (), emit (Log ''Execution finished. Exiting.'') w'')))"

text \<open>
  \<^verbatim>\<open>run_db_command(parser, args)\<close>: an argument list that is absent or empty makes the
  parser read the command line; no subcommand prints the help and exits; the path of
  the store must be a string.
\<close>

definition run_db_command ::
  "db_tools \<Rightarrow> parser \<Rightarrow> string list option \<Rightarrow> world \<Rightarrow> (error + unit) \<times> world" where
  "run_db_command tools parser args w =
     (case (case args of Some (a # as) \<Rightarrow> parser (a # as) | _ \<Rightarrow> parser (argv tools)) of
        Inl e \<Rightarrow> (Inl e, w)
      | Inr ns \<Rightarrow>
          (case getattr ns ''cmd'' of
             Inl e \<Rightarrow> (Inl e, w)
           | Inr cmd \<Rightarrow>
               if \<not> truthy cmd then (Inl (SystemExit None), emit Help w)
               else (case getattr ns ''database'' of
                       Inl e \<Rightarrow> (Inl e, emit (Log ''Initializing database manager'') w)
                     | Inr (YStr database) \<Rightarrow>
                         (case handle_missing_database database
                                 (emit (Log ''Initializing database manager'') w) of
                            (Inl e, w') \<Rightarrow> (Inl e, w')
                          | (Inr u, w') \<Rightarrow> execute_subcommand tools cmd ns database w')
                     | Inr other \<Rightarrow>
                         (Inl TypeError, emit (Log ''Initializing database manager'') w))))"

text \<open>
  \<^verbatim>\<open>handle_keyboard_interrupt\<close>, the handler given to the engine; \<open>shutdown\<close> is the
  engine's \<^verbatim>\<open>bf.shutdown()\<close>.
\<close>

definition handle_keyboard_interrupt ::
  "(world \<Rightarrow> error option \<times> world) \<Rightarrow> world \<Rightarrow> (error + int) \<times> world" where
  "handle_keyboard_interrupt shutdown w =
     (case get_user_input ''Kill brute force?(y/n): ''
             (emit (Out (''CTRL+C Captured'' @ [CHR 0x0A])) (emit (Out []) w)) of
        (Inl e, w') \<Rightarrow> (Inl e, w')
      | (Inr resp, w') \<Rightarrow>
          if resp = Some ''y''
          then (case shutdown (emit (Out ''Monitoring final processes completion'')
                                 (emit (Out ''Kill request received'') w')) of
                  (Some e, w'') \<Rightarrow> (Inl e, w'')
                | (None, w'') \<Rightarrow> (Inl (SystemExit None), emit (Out ''Exiting'') w''))
          else (Inr 1, w'))"

section \<open>The document-driven mode\<close>

text \<open>
  Lines 240 to 336, from the value that \<^verbatim>\<open>loadYml\<close> returned. \<open>run\<close> is the
  dispatcher called on each management command and \<open>brute_sp\<close> the attack parser; the
  result is the namespace parsed from the attack tokens, or \<open>None\<close> when there is no
  attack section to translate.
\<close>

definition yaml_mode ::
  "(string list \<Rightarrow> world \<Rightarrow> (error + unit) \<times> world) \<Rightarrow> (yval list \<Rightarrow> error + namespace) \<Rightarrow>
   yval \<Rightarrow> world \<Rightarrow> (error + namespace option) \<times> world" where
  "yaml_mode run brute_sp vals w =
     (case parseYml vals [''database''] of
        Inl e \<Rightarrow> (Inl e, w)
      | Inr yargs \<Rightarrow>
          (case py_index (YDict yargs) ''database'' of
             Inl e \<Rightarrow> (Inl e, w)
           | Inr (YStr d) \<Rightarrow>
               (case do_db_management run (''--database='' @ d) (get_or_empty yargs ''manage-db'') w of
                  (Inl e, w1) \<Rightarrow> (Inl e, w1)
                | (Inr u, w1) \<Rightarrow>
                    (case brute_force_args (''--database='' @ d) (get_or_empty yargs ''brute-force'') of
                       Inl e \<Rightarrow> (Inl e, w1)
                     | Inr None \<Rightarrow> (Inr None, w1)
                     | Inr (Some toks) \<Rightarrow>
                         (case brute_sp toks of
                            Inl e \<Rightarrow> (Inl e, emit (Out (py_str (YList toks))) w1)
                          | Inr ns \<Rightarrow>
                              (Inr (Some ns),
                               emit NamespaceRepr (emit (Out (py_str (YList toks))) w1)))))
           | Inr other \<Rightarrow> (Inl TypeError, w)))"

section \<open>Assembling the configuration and launching the campaign\<close>

text \<open>
  The engine's \<^verbatim>\<open>Config\<close> with the attributes the script sets; \<open>'c\<close> is the type of
  authentication callbacks and \<open>'j\<close> the type of \<^verbatim>\<open>Jitter\<close> objects.
\<close>

record ('c, 'j) Config =
  authentication_callback :: 'c
  process_count :: yval
  max_auth_tries :: yval
  stop_on_valid :: yval
  authentication_jitter :: 'j
  max_auth_jitter :: 'j
  db_file :: yval
  log_file :: yval
  log_stdout :: yval
  log_general :: yval
  log_valid :: yval
  log_invalid :: yval
  exception_handlers :: "string list"

text \<open>
  The collaborators of the attack: the module's \<^verbatim>\<open>initialize(args)\<close>, the constructor
  \<^verbatim>\<open>Jitter(min=, max=)\<close>, \<^verbatim>\<open>config.validate()\<close>, and \<^verbatim>\<open>BruteForcer(config)\<close> followed
  by \<^verbatim>\<open>bf.launch()\<close>.
\<close>

record ('c, 'j) engine =
  initialize :: "yval \<Rightarrow> namespace \<Rightarrow> error + 'c"
  Jitter :: "yval \<Rightarrow> yval \<Rightarrow> error + 'j"
  validate :: "('c, 'j) Config \<Rightarrow> error option"
  launch :: "('c, 'j) Config \<Rightarrow> world \<Rightarrow> error option \<times> world"

definition bind_e :: "error + 'a \<Rightarrow> ('a \<Rightarrow> error + 'b) \<Rightarrow> error + 'b" where
  "bind_e r f = (case r of Inl e \<Rightarrow> Inl e | Inr x \<Rightarrow> f x)"

text \<open>Lines 357 to 387, each attribute read in the order of the script.\<close>

definition assemble :: "('c, 'j) engine \<Rightarrow> namespace \<Rightarrow> error + ('c, 'j) Config" where
  "assemble eng args =
     bind_e (getattr args ''module'') (\<lambda>m.
     bind_e (initialize eng m args) (\<lambda>cb.
     bind_e (getattr args ''process_count'') (\<lambda>pc.
     bind_e (getattr args ''max_auth_tries'') (\<lambda>tries.
     bind_e (getattr args ''stop_on_valid'') (\<lambda>stop.
     bind_e (getattr args ''auth_jitter_min'') (\<lambda>ajmin.
     bind_e (getattr args ''auth_jitter_max'') (\<lambda>ajmax.
     bind_e (Jitter eng ajmin ajmax) (\<lambda>aj.
     bind_e (getattr args ''threshold_jitter_min'') (\<lambda>tjmin.
     bind_e (getattr args ''threshold_jitter_max'') (\<lambda>tjmax.
     bind_e (Jitter eng tjmin tjmax) (\<lambda>tj.
     bind_e (getattr args ''database'') (\<lambda>db.
     bind_e (getattr args ''log_file'') (\<lambda>lf.
     bind_e (getattr args ''log_stdout'') (\<lambda>ls.
     bind_e (getattr args ''log_general'') (\<lambda>lg.
     bind_e (getattr args ''log_valid'') (\<lambda>lv.
     bind_e (getattr args ''log_invalid'') (\<lambda>li.
       Inr \<lparr>authentication_callback = cb, process_count = pc, max_auth_tries = tries,
            stop_on_valid = stop, authentication_jitter = aj, max_auth_jitter = tj,
            db_file = db, log_file = lf, log_stdout = ls, log_general = lg,
            log_valid = lv, log_invalid = li,
            exception_handlers = [''KeyboardInterrupt'']\<rparr>)))))))))))))))))"

text \<open>The handler of lines 402 to 412, in the order of its prints.\<close>

definition report :: "error \<Rightarrow> display list" where
  "report e =
     [Out [], Out (''Unhandled exception occurred.'' @ [CHR 0x0A]), ExcMessage e, ExcMessage e,
      TracebackDir, TracebackLineno, TracebackFrames, Out [], Out []]"

text \<open>
  Lines 395 to 412. An exception that is an \<^verbatim>\<open>Exception\<close> is caught and reported, and
  the statement ends normally; any other propagates.
\<close>

definition launch_campaign ::
  "('c, 'j) engine \<Rightarrow> ('c, 'j) Config \<Rightarrow> world \<Rightarrow> (error + unit) \<times> world" where
  "launch_campaign eng config w =
     (case launch eng config (emit (Log ''Initializing attack'') w) of
        (None, w') \<Rightarrow> (Inr (), emit (Log ''Attack complete'') w')
      | (Some e, w') \<Rightarrow>
          if is_Exception e then (Inr (), w'\<lparr>shown := shown w' @ report e\<rparr>)
          else (Inl e, w'))"

text \<open>Lines 346 to 412, the last statements of the script.\<close>

definition brute_mode ::
  "('c, 'j) engine \<Rightarrow> namespace \<Rightarrow> world \<Rightarrow> (error + unit) \<times> world" where
  "brute_mode eng args w =
     (if args ''module'' = None then (Inl (Failure ''No attack module supplied!''), w)
      else (case assemble eng args of
              Inl e \<Rightarrow> (Inl e, w)
            | Inr config \<Rightarrow>
                (case validate eng config of
                   Some e \<Rightarrow> (Inl e, w)
                 | None \<Rightarrow> launch_campaign eng config w)))"

text \<open>
  The exit status of the interpreter: 0 when the script runs to its end, the code of a
  \<^verbatim>\<open>SystemExit\<close> (\<^verbatim>\<open>None\<close> counts as 0), and a non-zero status, here 1, for any other
  exception that nothing caught.
\<close>

fun exit_status :: "error + unit \<Rightarrow> int" where
  "exit_status (Inr u) = 0"
| "exit_status (Inl (SystemExit None)) = 0"
| "exit_status (Inl (SystemExit (Some n))) = n"
| "exit_status (Inl e) = 1"

section \<open>Declaration order, stated from the specification\<close>

text \<open>
  The specification says that tokens follow the order in which the document declares
  its keys. These definitions write that order down without the loops of the script:
  the tokens of one entry on its own, each list mapped in the order of the document.
  The theorems below compare their concatenation with what the loops build.
\<close>








section \<open>The attack parser, from the specification\<close>

text \<open>
  Modelled from the spec: the attack parser \<^verbatim>\<open>brute_sp\<close>, whose parent \<^verbatim>\<open>bfg.parser\<close>
  and module subparsers are not part of \<^verbatim>\<open>bfg.py\<close>. The specification gives its
  grammar: the flags of the attack itself, then a module selector, then that module's
  own flags appended after it. Lines 205 to 212 give the rest: the parser is an
  \<^verbatim>\<open>argparse\<close> parser, it sets \<^verbatim>\<open>mode\<close> to \<^verbatim>\<open>brute\<close> and it requires
  \<^verbatim>\<open>--database\<close>. A token that the grammar does not accept at its place ends the
  parse as \<^verbatim>\<open>argparse\<close> ends it, with \<^verbatim>\<open>SystemExit(2)\<close>. Which flags and which modules
  exist, how a flag's text becomes a value (\<open>None\<close> when the text is refused) and the
  defaults are the parameters of the grammar.
\<close>

record grammar =
  own_flags :: "(string \<times> (string \<Rightarrow> yval option)) list"
  module_flags :: "(string \<times> (string \<times> (string \<Rightarrow> yval option)) list) list"
  defaults :: "(string \<times> yval) list"

text \<open>The name and the value of a token \<^verbatim>\<open>--name=value\<close>.\<close>

fun split_flag :: "string \<Rightarrow> (string \<times> string) option" where
  "split_flag (a # b # rest) =
     (if a = CHR ''-'' \<and> b = CHR ''-'' \<and> CHR ''='' \<in> set rest
      then Some (takeWhile (\<lambda>c. c \<noteq> CHR ''='') rest, tl (dropWhile (\<lambda>c. c \<noteq> CHR ''='') rest))
      else None)"
| "split_flag s = None"

definition is_flag_token :: "yval \<Rightarrow> bool" where
  "is_flag_token t = (case t of YStr s \<Rightarrow> split_flag s \<noteq> None | _ \<Rightarrow> False)"

text \<open>The attribute a flag is stored in: hyphens become underscores.\<close>

definition dest :: "string \<Rightarrow> string" where
  "dest n = map (\<lambda>c. if c = CHR ''-'' then CHR ''_'' else c) n"

text \<open>
  Modelled from the spec: a run of flags of one parser. Every token must be a flag of
  the table, with a text that the flag accepts; the value goes to the flag's attribute.
\<close>

fun parse_flags ::
  "(string \<times> (string \<Rightarrow> yval option)) list \<Rightarrow> yval list \<Rightarrow> namespace \<Rightarrow> error + namespace" where
  "parse_flags table [] ns = Inr ns"
| "parse_flags table (t # ts) ns =
     (case t of
        YStr s \<Rightarrow>
          (case split_flag s of
             None \<Rightarrow> Inl (SystemExit (Some 2))
           | Some (n, v) \<Rightarrow>
               (case map_of table n of
                  None \<Rightarrow> Inl (SystemExit (Some 2))
                | Some conv \<Rightarrow>
                    (case conv v of
                       None \<Rightarrow> Inl (SystemExit (Some 2))
                     | Some x \<Rightarrow> parse_flags table ts (ns(dest n \<mapsto> x)))))
      | _ \<Rightarrow> Inl TypeError)"

definition flag_given :: "string \<Rightarrow> yval list \<Rightarrow> bool" where
  "flag_given n toks =
     list_ex (\<lambda>t. case t of
                    YStr s \<Rightarrow> (case split_flag s of Some (m, v) \<Rightarrow> m = n | None \<Rightarrow> False)
                  | _ \<Rightarrow> False) toks"

text \<open>
  Modelled from the spec: the attack parser. The flags before the first bare word are
  the attack's own, with \<^verbatim>\<open>--database\<close> among them; the first bare word selects the
  module, which must exist; every token after it must be a flag of that module; and
  \<^verbatim>\<open>--database\<close> must have been given. With no bare word there is no module and the
  namespace has no attribute \<^verbatim>\<open>module\<close>.
\<close>

definition attack_parser :: "grammar \<Rightarrow> yval list \<Rightarrow> error + namespace" where
  "attack_parser g toks =
     (case parse_flags ((''database'', (\<lambda>v. Some (YStr v))) # own_flags g)
             (takeWhile is_flag_token toks)
             (map_of ((''mode'', YStr ''brute'') # defaults g)) of
        Inl e \<Rightarrow> Inl e
      | Inr ns \<Rightarrow>
          (case (case dropWhile is_flag_token toks of
                   [] \<Rightarrow> Inr ns
                 | m # rest \<Rightarrow>
                     (case m of
                        YStr name \<Rightarrow>
                          (case map_of (module_flags g) name of
                             None \<Rightarrow> Inl (SystemExit (Some 2))
                           | Some table \<Rightarrow> parse_flags table rest (ns(''module'' \<mapsto> YStr name)))
                      | _ \<Rightarrow> Inl TypeError)) of
             Inl e \<Rightarrow> Inl e
           | Inr ns' \<Rightarrow>
               if flag_given ''database'' (takeWhile is_flag_token toks)
               then Inr ns' else Inl (SystemExit (Some 2))))"

section \<open>The documents of the specification's scenarios and sample collaborators\<close>

definition scenario_management :: yval where
  "scenario_management =
     YDict [(''database'', YStr ''a.db''),
            (''manage-db'', YDict [(''add-creds'', YDict [(''file'', YStr ''c.txt'')])])]"



text \<open>A process with no files, whose operator types \<^verbatim>\<open>Y\<close> and then \<^verbatim>\<open>y\<close>.\<close>

definition sample_world :: world where
  "sample_world = \<lparr>fs = Map.empty, stdin = [''Y'', ''y''], shown = []\<rparr>"

text \<open>A namespace as an attack parser could return it for the scenario.\<close>

definition sample_namespace :: namespace where
  "sample_namespace =
     map_of [(''mode'', YStr ''brute''), (''module'', YStr ''ssh''), (''port'', YInt 22),
             (''process_count'', YInt 4), (''max_auth_tries'', YInt 1),
             (''stop_on_valid'', YBool False),
             (''auth_jitter_min'', YNone), (''auth_jitter_max'', YNone),
             (''threshold_jitter_min'', YNone), (''threshold_jitter_max'', YNone),
             (''database'', YStr ''a.db''), (''log_file'', YNone), (''log_stdout'', YBool True),
             (''log_general'', YBool True), (''log_valid'', YBool True),
             (''log_invalid'', YBool False)]"

text \<open>An engine that accepts every configuration and whose launch raises an exception.\<close>

definition sample_engine :: "(unit, yval \<times> yval) engine" where
  "sample_engine =
     \<lparr>initialize = (\<lambda>m args. Inr ()),
      Jitter = (\<lambda>lo hi. Inr (lo, hi)),
      validate = (\<lambda>c. None),
      launch = (\<lambda>c w. (Some (Failure ''connection refused''), w))\<rparr>"

definition sample_config :: "(unit, yval \<times> yval) Config" where
  "sample_config =
     \<lparr>authentication_callback = (), process_count = YInt 4, max_auth_tries = YInt 1,
      stop_on_valid = YBool False, authentication_jitter = (YNone, YNone),
      max_auth_jitter = (YNone, YNone), db_file = YStr ''a.db'', log_file = YNone,
      log_stdout = YBool True, log_general = YBool True, log_valid = YBool True,
      log_invalid = YBool False, exception_handlers = [''KeyboardInterrupt'']\<rparr>"




text \<open>
  A grammar for the scenario: the attack has the flag \<^verbatim>\<open>--process-count\<close>, the module
  \<^verbatim>\<open>ssh\<close> has the flag \<^verbatim>\<open>--port\<close>, and every text is accepted as it is.
\<close>

definition keep_text :: "string \<Rightarrow> yval option" where
  "keep_text v = Some (YStr v)"

definition sample_grammar :: grammar where
  "sample_grammar =
     \<lparr>own_flags = [(''process-count'', keep_text)],
      module_flags = [(''ssh'', [(''port'', keep_text)])],
      defaults = [(''process_count'', YInt 1)]\<rparr>"

section \<open>Properties\<close>

subsection \<open>The loader\<close>

lemma findFile_returns: "findFile files yaml_file path = Inr path"
  by (auto simp: findFile_def path_exists_def is_file_def)

text \<open>
  C1. For a path that does not resolve to an existing file \<open>findFile\<close> should raise
  \<^verbatim>\<open>FileNotFoundError\<close>. The guard asks for a path that does not exist and is a file at
  once, so it never holds: on an empty file system the missing path is returned.
\<close>

theorem findFile_missing_path_returned:
  "\<not> path_exists (fs sample_world) ''missing.yml'' \<and>
   findFile (fs sample_world) ''missing.yml'' ''missing.yml'' = Inr ''missing.yml''"
  by (simp add: findFile_def path_exists_def is_file_def sample_world_def)

subsection \<open>The loops as concatenations in document order\<close>

















subsection \<open>Evaluations shared by the scenarios\<close>






lemma sample_grammar_accepts_flags_first:
  "(case attack_parser sample_grammar
           [YStr ''--database=a.db'', YStr ''--process-count=4'', YStr ''ssh'', YStr ''--port=22''] of
      Inl e \<Rightarrow> None
    | Inr ns \<Rightarrow> Some (ns ''module'', ns ''process_count'', ns ''port'', ns ''mode'')) =
   Some (Some (YStr ''ssh''), Some (YStr ''4''), Some (YStr ''22''), Some (YStr ''brute''))"
  by code_simp

lemma assemble_process_count:
  "assemble eng ns = Inr cfg \<Longrightarrow> getattr ns ''process_count'' = Inr (process_count cfg)"
  by (auto simp: assemble_def bind_e_def split: sum.splits)

lemma assemble_sample: "assemble sample_engine sample_namespace = Inr sample_config"
  by (simp add: assemble_def bind_e_def getattr_def sample_engine_def sample_namespace_def
        sample_config_def)

lemma launch_sample:
  "launch sample_engine c w = (Some (Failure ''connection refused''), w)"
  by (simp add: sample_engine_def)

lemma validate_sample: "validate sample_engine c = None"
  by (simp add: sample_engine_def)

lemma module_sample: "sample_namespace ''module'' = Some (YStr ''ssh'')"
  by (simp add: sample_namespace_def)

subsection \<open>The prompt loop\<close>

lemma yn_loop_continue:
  "u \<noteq> Some ''y'' \<Longrightarrow> u \<noteq> Some ''n'' \<Longrightarrow>
   yn_loop m u w =
     (case input m w of (Inl e, w') \<Rightarrow> (Inl e, w') | (Inr l, w') \<Rightarrow> yn_loop m (Some l) w')"
  by (subst yn_loop.simps) simp

lemma yn_loop_stop:
  "u = Some ''y'' \<or> u = Some ''n'' \<Longrightarrow> yn_loop m u w = (Inr u, w)"
  by (subst yn_loop.simps) auto

lemma yn_loop_result:
  "yn_loop m u w = (Inr r, w') \<Longrightarrow> r = Some ''y'' \<or> r = Some ''n''"
proof (induction m u w rule: yn_loop.induct)
  case (1 m uinput w)
  show ?case
  proof (cases "uinput \<noteq> Some ''y'' \<and> uinput \<noteq> Some ''n''")
    case True
    with "1.prems" obtain l w1 where i: "input m w = (Inr l, w1)"
      and r: "yn_loop m (Some l) w1 = (Inr r, w')"
      by (auto simp: yn_loop_continue split: prod.splits sum.splits)
    from "1.IH"[OF True i[symmetric] refl r] show ?thesis .
  next
    case False
    with "1.prems" show ?thesis
      by (auto simp: yn_loop_stop)
  qed
qed

lemma yn_loop_reject:
  "stdin w = l # ls \<Longrightarrow> l \<noteq> ''y'' \<Longrightarrow> l \<noteq> ''n'' \<Longrightarrow>
   yn_loop m None w = yn_loop m None (emit (Prompt m) (w\<lparr>stdin := ls\<rparr>))"
  by (simp add: yn_loop_continue [of None] yn_loop_continue [of "Some l"] input_def)

lemma yn_loop_accept:
  "stdin w = l # ls \<Longrightarrow> l = ''y'' \<or> l = ''n'' \<Longrightarrow>
   yn_loop m None w = (Inr (Some l), emit (Prompt m) (w\<lparr>stdin := ls\<rparr>))"
  by (auto simp add: yn_loop_continue [of None] yn_loop_stop input_def)

lemma yn_loop_eof:
  "stdin w = [] \<Longrightarrow> yn_loop m None w = (Inl EOFError, emit (Prompt m) w)"
  by (simp add: yn_loop_continue [of None] input_def)

subsection \<open>The attack section without a module\<close>

text \<open>
  C2, as stated: every attack section that lacks the \<^verbatim>\<open>module\<close> key makes the
  translation fail with \<^verbatim>\<open>ValueError\<close>. The empty mapping lacks the key, and the guard
  \<^verbatim>\<open>if bf_args:\<close> skips it: nothing is raised.
\<close>

theorem empty_attack_section_not_rejected:
  "brute_force_args ''--database=a.db'' (YDict []) = Inr None"
  by (simp add: brute_force_args_def)

text \<open>
  C2, amended: every attack section that is not empty and lacks the \<^verbatim>\<open>module\<close> key
  makes the translation raise \<^verbatim>\<open>ValueError\<close>, and no token list is produced: in a
  document with no management section the attack parser is never consulted and nothing
  is shown. The empty section is skipped without an error and without tokens.
\<close>

theorem attack_section_without_module:
  "brute_force_args db_arg (YDict []) = Inr None \<and>
   (''module'' \<notin> fst ` set items \<and> items \<noteq> [] \<longrightarrow>
      brute_force_args db_arg (YDict items) = Inl (ValueError no_module_message) \<and>
      yaml_mode run brute_sp
        (YDict [(''database'', YStr d), (''brute-force'', YDict items)]) w =
      (Inl (ValueError no_module_message), w))"
  by (simp add: yaml_mode_def get_or_empty_def do_db_management_def brute_force_args_def)

theorem attack_section_without_module_witness:
  "''module'' \<notin> fst ` set [(''process_count'', YInt 4)] \<and>
   brute_force_args ''--database=a.db'' (YDict [(''process_count'', YInt 4)]) =
     Inl (ValueError no_module_message) \<and>
   yaml_mode (\<lambda>a w. (Inr (), w)) (\<lambda>toks. Inl TypeError)
     (YDict [(''database'', YStr ''a.db''), (''brute-force'', YDict [(''process_count'', YInt 4)])])
     sample_world =
     (Inl (ValueError no_module_message), sample_world)"
  using attack_section_without_module
    [of "''--database=a.db''" "[(''process_count'', YInt 4)]" "\<lambda>a w. (Inr (), w)"
        "\<lambda>toks. Inl TypeError" "''a.db''" sample_world]
  by simp

subsection \<open>Booleans, lists and flag names\<close>

text \<open>
  C3. A boolean anywhere in a management or attack section should come out as
  \<^verbatim>\<open>true\<close> or \<^verbatim>\<open>false\<close>. A top-level attack parameter is lowercased (first
  equation), but a boolean among the module's arguments is formatted as it is (second
  equation), and so is a boolean inside a list of a management flag (third equation).
\<close>

theorem module_argument_boolean_not_lowercased:
  "brute_force_args ''--database=a.db''
     (YDict [(''stop_on_valid'', YBool True),
             (''module'', YDict [(''name'', YStr ''ssh''), (''args'', YDict [])])]) =
     Inr (Some [YStr ''--database=a.db'', YStr ''--stop-on-valid=true'', YStr ''ssh'']) \<and>
   brute_force_args ''--database=a.db''
     (YDict [(''module'', YDict [(''name'', YStr ''ssh''),
                                 (''args'', YDict [(''verify_ssl'', YBool True)])])]) =
     Inr (Some [YStr ''--database=a.db'', YStr ''ssh'', YStr ''--verify-ssl=True'']) \<and>
   argset_loop [''add-creds'', ''--database=a.db''] [(''flags'', YList [YBool True])] =
     [''add-creds'', ''--database=a.db'', ''--flags'', ''True'']"
  by code_simp

text \<open>
  C4. A list should become one token for each element. The management loop does that
  (first equation); the attack loop formats the list as a whole into one token, which
  holds Python's text of the list (second equation).
\<close>

theorem attack_list_value_single_token:
  "argset_loop [''add-creds'', ''--database=a.db''] [(''ports'', YList [YInt 22, YInt 23])] =
     [''add-creds'', ''--database=a.db'', ''--ports'', ''22'', ''23''] \<and>
   brute_force_args ''--database=a.db''
     (YDict [(''ports'', YList [YInt 22, YInt 23]),
             (''module'', YDict [(''name'', YStr ''ssh''), (''args'', YDict [])])]) =
     Inr (Some [YStr ''--database=a.db'', YStr ''--ports=[22, 23]'', YStr ''ssh''])"
  by code_simp

text \<open>
  C5. Underscores of a key should become hyphens in the flag. The attack loop replaces
  them, for its own keys and for the module's (first equation); the management loop
  copies the key (second equation).
\<close>

theorem management_flag_keeps_underscores:
  "brute_force_args ''--database=a.db''
     (YDict [(''process_count'', YInt 4),
             (''module'', YDict [(''name'', YStr ''ssh''),
                                 (''args'', YDict [(''verify_ssl'', YInt 1)])])]) =
     Inr (Some [YStr ''--database=a.db'', YStr ''--process-count=4'', YStr ''ssh'',
                YStr ''--verify-ssl=1'']) \<and>
   argset_loop [''add-creds'', ''--database=a.db''] [(''as_credentials'', YStr ''yes'')] =
     [''add-creds'', ''--database=a.db'', ''--as_credentials'', ''yes'']"
  by code_simp

subsection \<open>The scenarios\<close>

text \<open>
  C6. For the document \<^verbatim>\<open>{database: "a.db", manage-db: {"add-creds": {"file":
  "c.txt"}}}\<close> the whole document-driven mode is one call of the dispatcher, with the
  tokens \<^verbatim>\<open>add-creds --database=a.db --file c.txt\<close>, whatever the dispatcher is and
  whatever it does; in particular for \<^verbatim>\<open>run_db_command\<close> with the management parser.
\<close>

theorem scenario_management_dispatched_once:
  "yaml_mode run brute_sp scenario_management w =
     (case run [''add-creds'', ''--database=a.db'', ''--file'', ''c.txt''] w of
        (Inl e, w') \<Rightarrow> (Inl e, w')
      | (Inr u, w') \<Rightarrow> (Inr None, w')) \<and>
   yaml_mode (\<lambda>a. run_db_command tools db_sp (Some a)) brute_sp scenario_management w =
     (case run_db_command tools db_sp
             (Some [''add-creds'', ''--database=a.db'', ''--file'', ''c.txt'']) w of
        (Inl e, w') \<Rightarrow> (Inl e, w')
      | (Inr u, w') \<Rightarrow> (Inr None, w'))"
  by (simp add: yaml_mode_def scenario_management_def get_or_empty_def do_db_management_def
        brute_force_args_def py_str_def split: prod.splits sum.splits)



subsection \<open>Declaration order\<close>




subsection \<open>A failure of the launch\<close>

lemma launch_campaign_reports:
  assumes "is_Exception e"
    and "launch eng config (emit (Log ''Initializing attack'') w) = (Some e, w')"
  shows "launch_campaign eng config w = (Inr (), w'\<lparr>shown := shown w' @ report e\<rparr>) \<and>
         ExcMessage e \<in> set (report e) \<and>
         TracebackFrames \<in> set (report e)"
  using assms by (simp add: launch_campaign_def report_def)

text \<open>
  C9. After an exception of the launch the process should report the failure, message
  and call trace, and exit with a non-zero status. The handler of lines 402 to 412
  prints the report and the script ends there: it neither raises the exception again,
  as the handler of \<^verbatim>\<open>run_db_command\<close> does (lines 154 to 158), nor exits. Here the
  engine's launch raises an exception; it is reported, and the exit status of the
  process is 0.
\<close>

theorem launch_failure_exit_status_zero:
  "launch sample_engine sample_config (emit (Log ''Initializing attack'') sample_world) =
     (Some (Failure ''connection refused''), emit (Log ''Initializing attack'') sample_world) \<and>
   is_Exception (Failure ''connection refused'') \<and>
   shown (snd (launch_campaign sample_engine sample_config sample_world)) =
     Log ''Initializing attack'' # report (Failure ''connection refused'') \<and>
   exit_status (fst (launch_campaign sample_engine sample_config sample_world)) = 0 \<and>
   exit_status (fst (brute_mode sample_engine sample_namespace sample_world)) = 0"
  by (simp add: launch_campaign_def brute_mode_def assemble_sample launch_sample
        validate_sample module_sample emit_def sample_world_def)

subsection \<open>The confirmation prompts\<close>

text \<open>
  C10. Both prompts accept only \<^verbatim>\<open>y\<close> and \<^verbatim>\<open>n\<close>. Whenever \<^verbatim>\<open>get_user_input\<close>
  returns, its result is one of the two; a line that is neither is answered by the
  prompt again, on the rest of the input; a line that is one of them is returned. The
  prompt for a store that does not exist does the same: any other line prompts again,
  \<^verbatim>\<open>n\<close> exits the process and \<^verbatim>\<open>y\<close> goes on to create the store.
\<close>

theorem prompt_accepts_only_y_or_n:
  "(get_user_input m w = (Inr r, w') \<longrightarrow> r = Some ''y'' \<or> r = Some ''n'') \<and>
   (stdin w = l # ls \<and> l \<noteq> ''y'' \<and> l \<noteq> ''n'' \<longrightarrow>
      get_user_input m w = get_user_input m (emit (Prompt m) (w\<lparr>stdin := ls\<rparr>))) \<and>
   (stdin w = l # ls \<and> (l = ''y'' \<or> l = ''n'') \<longrightarrow>
      get_user_input m w = (Inr (Some l), emit (Prompt m) (w\<lparr>stdin := ls\<rparr>))) \<and>
   (\<not> path_exists (fs w) d \<and> stdin w = l # ls \<and> l \<noteq> ''y'' \<and> l \<noteq> ''n'' \<longrightarrow>
      handle_missing_database d w =
        handle_missing_database d (emit (Prompt database_prompt) (w\<lparr>stdin := ls\<rparr>))) \<and>
   (\<not> path_exists (fs w) d \<and> stdin w = ''n'' # ls \<longrightarrow>
      handle_missing_database d w =
        (Inl (SystemExit None),
         emit (Log ''Database not found. Exiting'')
           (emit (Prompt database_prompt) (w\<lparr>stdin := ls\<rparr>)))) \<and>
   (\<not> path_exists (fs w) d \<and> stdin w = ''y'' # ls \<longrightarrow>
      handle_missing_database d w =
        (Inr (),
         emit (Log (''Creating database file: '' @ d))
           (emit (Out []) (emit (Prompt database_prompt) (w\<lparr>stdin := ls\<rparr>)))))"
proof (intro conjI impI)
  assume "get_user_input m w = (Inr r, w')"
  then show "r = Some ''y'' \<or> r = Some ''n''"
    unfolding get_user_input_def by (rule yn_loop_result)
next
  assume "stdin w = l # ls \<and> l \<noteq> ''y'' \<and> l \<noteq> ''n''"
  then show "get_user_input m w = get_user_input m (emit (Prompt m) (w\<lparr>stdin := ls\<rparr>))"
    unfolding get_user_input_def by (simp add: yn_loop_reject)
next
  assume "stdin w = l # ls \<and> (l = ''y'' \<or> l = ''n'')"
  then show "get_user_input m w = (Inr (Some l), emit (Prompt m) (w\<lparr>stdin := ls\<rparr>))"
    unfolding get_user_input_def by (simp add: yn_loop_accept)
next
  assume "\<not> path_exists (fs w) d \<and> stdin w = l # ls \<and> l \<noteq> ''y'' \<and> l \<noteq> ''n''"
  then show "handle_missing_database d w =
       handle_missing_database d (emit (Prompt database_prompt) (w\<lparr>stdin := ls\<rparr>))"
    by (simp add: handle_missing_database_def yn_loop_reject [of w l ls] emit_def)
next
  assume "\<not> path_exists (fs w) d \<and> stdin w = ''n'' # ls"
  then show "handle_missing_database d w =
       (Inl (SystemExit None),
        emit (Log ''Database not found. Exiting'')
          (emit (Prompt database_prompt) (w\<lparr>stdin := ls\<rparr>)))"
    by (simp add: handle_missing_database_def yn_loop_accept [of w "''n''" ls])
next
  assume "\<not> path_exists (fs w) d \<and> stdin w = ''y'' # ls"
  then show "handle_missing_database d w =
       (Inr (),
        emit (Log (''Creating database file: '' @ d))
          (emit (Out []) (emit (Prompt database_prompt) (w\<lparr>stdin := ls\<rparr>))))"
    by (simp add: handle_missing_database_def yn_loop_accept [of w "''y''" ls])
qed

theorem prompt_accepts_only_y_or_n_witness:
  "get_user_input ''Kill brute force?(y/n): '' sample_world =
     (Inr (Some ''y''),
      \<lparr>fs = Map.empty, stdin = [],
       shown = [Prompt ''Kill brute force?(y/n): '', Prompt ''Kill brute force?(y/n): '']\<rparr>) \<and>
   handle_missing_database ''a.db'' sample_world =
     (Inr (),
      \<lparr>fs = Map.empty, stdin = [],
       shown = [Prompt database_prompt, Prompt database_prompt, Out [],
                Log ''Creating database file: a.db'']\<rparr>)"
proof -
  let ?m = "''Kill brute force?(y/n): ''"
  let ?w1 = "\<lambda>m. emit (Prompt m) (sample_world\<lparr>stdin := [''y'']\<rparr>)"
  have s0: "stdin sample_world = ''Y'' # [''y'']" by (simp add: sample_world_def)
  have s1: "stdin (?w1 m) = ''y'' # []" for m by (simp add: emit_def)
  have ne: "\<not> path_exists (fs sample_world) ''a.db''"
    by (simp add: path_exists_def sample_world_def)
  have ne1: "\<not> path_exists (fs (?w1 database_prompt)) ''a.db''"
    by (simp add: path_exists_def sample_world_def emit_def)
  have a: "get_user_input ?m sample_world = get_user_input ?m (?w1 ?m)"
    using prompt_accepts_only_y_or_n [of ?m sample_world _ _ "''Y''" "[''y'']"] s0 by simp
  have b: "get_user_input ?m (?w1 ?m) =
             (Inr (Some ''y''), emit (Prompt ?m) ((?w1 ?m)\<lparr>stdin := []\<rparr>))"
    using prompt_accepts_only_y_or_n [of ?m "?w1 ?m" _ _ "''y''" "[]"] s1 by simp
  have c: "handle_missing_database ''a.db'' sample_world =
             handle_missing_database ''a.db'' (?w1 database_prompt)"
    using prompt_accepts_only_y_or_n [of _ sample_world _ _ "''Y''" "[''y'']" "''a.db''"] s0 ne
    by simp
  have d: "handle_missing_database ''a.db'' (?w1 database_prompt) =
             (Inr (), emit (Log (''Creating database file: '' @ ''a.db''))
                        (emit (Out []) (emit (Prompt database_prompt)
                           ((?w1 database_prompt)\<lparr>stdin := []\<rparr>))))"
    using prompt_accepts_only_y_or_n [of _ "?w1 database_prompt" _ _ "''y''" "[]" "''a.db''"] s1 ne1
    by simp
  show ?thesis
    unfolding a b c d by (simp add: emit_def sample_world_def)
qed

end
